theory Spec2Isabelle
  imports Complex_Main "HOL-Library.Sublist"
begin

section \<open>JavaScript values and inbound frames\<close>

text \<open>
  The coordinator is the React hook \<open>useAnalysis\<close>.  It reads inbound frames with
  \<open>JSON.parse\<close> and stores what it reads without inspecting it, so the values it
  handles are the values of JSON, plus JavaScript's \<open>undefined\<close> for a property
  that is not there.  A number is kept as the value the parser produced; the hook
  never computes with it.
\<close>

datatype json =
    JNull
  | JBool bool
  | JNum rat
  | JStr string
  | JArr "json list"
  | JObj "(string \<times> json) list"

text \<open>A JavaScript value read from a parsed frame: \<open>None\<close> is \<open>undefined\<close>.\<close>

type_synonym jsval = "json option"

text \<open>
  \<open>event.data\<close> as \<open>JSON.parse\<close> sees it: text that is not JSON (or a binary
  frame) makes the parser throw, anything else yields a value.
\<close>

datatype frame = Malformed | Parsed json

datatype exn = SyntaxError | TypeError

text \<open>
  Reading one of the properties \<open>type\<close>, \<open>progress\<close>, \<open>message\<close>, \<open>results\<close>
  of a parsed value other than \<open>null\<close>: an object gives the member of that name or
  \<open>undefined\<close>; a number, string, boolean or array has no property with one of
  these names.  (Reading a property of \<open>null\<close> throws; the handler below tests for
  that first.)  An object lists each member once, as the parser leaves it.
\<close>

fun getprop :: "json \<Rightarrow> string \<Rightarrow> jsval" where
  "getprop (JObj kvs) k = map_of kvs k"
| "getprop _ k = None"

section \<open>The session and its channels\<close>

datatype AnalysisStatus = Idle | Connecting | Analyzing | Complete | Error

text \<open>
  What the hook does to the outside world, in the order it does it: constructing a
  WebSocket, calling \<open>close()\<close> or \<open>send()\<close> on one, and writing to
  \<open>console.error\<close>.  Sockets are numbered in order of construction.
\<close>

datatype effect =
    Create nat
  | Close nat
  | Send nat json
  | ConsoleError string

text \<open>
  The variables the four handlers of one socket close over: the arguments of the
  \<open>startAnalysis\<close> call that built it, and the \<open>status\<close> of the render in which
  that \<open>startAnalysis\<close> was made.
\<close>

record closure =
  url :: string
  keyword :: string
  userId :: "string option"
  seen_status :: AnalysisStatus

record sess =
  status :: AnalysisStatus
  progress :: jsval
  message :: jsval
  result :: jsval
  socketRef :: "nat option"
  sockets :: "closure list"
  effects :: "effect list"

definition init :: sess where
  "init = \<lparr>status = Idle, progress = Some (JNum 0), message = Some (JStr ''''),
           result = Some JNull, socketRef = None, sockets = [], effects = []\<rparr>"

text \<open>
  \<open>startAnalysis\<close>: the four setters, \<open>close()\<close> on the socket the ref holds (if
  any), then a new socket, which the ref now holds.  The configured endpoint is taken
  to be a well-formed WebSocket address, so that the constructor returns.
\<close>

definition startAnalysis :: "string \<Rightarrow> string \<Rightarrow> string option \<Rightarrow> sess \<Rightarrow> sess" where
  "startAnalysis u k uid s =
    (let s1 = s\<lparr>status := Connecting, progress := Some (JNum 0),
                message := Some (JStr ''Connecting to RankForge AI...''),
                result := Some JNull\<rparr>;
         s2 = (case socketRef s1 of
                 Some old \<Rightarrow> s1\<lparr>effects := effects s1 @ [Close old]\<rparr>
               | None \<Rightarrow> s1);
         ws = length (sockets s2)
     in s2\<lparr>socketRef := Some ws,
           sockets := sockets s2 @
             [\<lparr>url = u, keyword = k, userId = uid, seen_status = status s\<rparr>],
           effects := effects s2 @ [Create ws]\<rparr>)"

text \<open>\<open>userId || 'guest'\<close>: \<open>undefined\<close> and the empty string are both falsy.\<close>

definition or_guest :: "string option \<Rightarrow> string" where
  "or_guest uid = (case uid of None \<Rightarrow> ''guest'' | Some x \<Rightarrow> if x = [] then ''guest'' else x)"

definition onopen :: "nat \<Rightarrow> closure \<Rightarrow> sess \<Rightarrow> sess" where
  "onopen ws c s =
     s\<lparr>status := Analyzing,
       effects := effects s @
         [Send ws (JObj [(''url'', JStr (url c)),
                         (''target_keyword'', JStr (keyword c)),
                         (''user_id'', JStr (or_guest (userId c)))])]\<rparr>"

text \<open>The body of the \<open>try\<close> block of \<open>onmessage\<close>; \<open>Inl\<close> is a throw.\<close>

definition onmessage_try :: "nat \<Rightarrow> frame \<Rightarrow> sess \<Rightarrow> exn + sess" where
  "onmessage_try ws fr s =
     (case fr of
        Malformed \<Rightarrow> Inl SyntaxError
      | Parsed data \<Rightarrow>
          if data = JNull then Inl TypeError
          else if getprop data ''type'' = Some (JStr ''progress'') then
            Inr (s\<lparr>progress := getprop data ''progress'', message := getprop data ''message''\<rparr>)
          else if getprop data ''type'' = Some (JStr ''complete'') then
            Inr (s\<lparr>result := getprop data ''results'', status := Complete,
                   effects := effects s @ [Close ws]\<rparr>)
          else if getprop data ''type'' = Some (JStr ''error'') then
            Inr (s\<lparr>message := getprop data ''message'', status := Error,
                   effects := effects s @ [Close ws]\<rparr>)
          else Inr s)"

text \<open>The \<open>catch\<close> clause takes every throw and writes one diagnostic.\<close>

definition onmessage :: "nat \<Rightarrow> frame \<Rightarrow> sess \<Rightarrow> sess" where
  "onmessage ws fr s =
     (case onmessage_try ws fr s of
        Inl e \<Rightarrow> s\<lparr>effects := effects s @ [ConsoleError ''Parse error'']\<rparr>
      | Inr s' \<Rightarrow> s')"

definition onerror :: "nat \<Rightarrow> sess \<Rightarrow> sess" where
  "onerror ws s =
     s\<lparr>effects := effects s @ [ConsoleError ''WebSocket error''],
       message := Some (JStr ''Connection error. Is the backend running?''),
       status := Error\<rparr>"

text \<open>\<open>onclose\<close>: the body of its \<open>if\<close> is a comment.\<close>

definition onclose :: "closure \<Rightarrow> sess \<Rightarrow> sess" where
  "onclose c s = (if seen_status c \<noteq> Complete \<and> seen_status c \<noteq> Error then s else s)"

text \<open>
  What can happen to the hook: a call of \<open>startAnalysis\<close>, or one of the four events
  on a socket.  The handlers belong to the socket they were attached to, so an event
  on a socket that was never constructed has no handler to run.
\<close>

datatype event =
    Submit string string "string option"
  | Opened nat
  | Message nat frame
  | Errored nat
  | Closed nat

fun step :: "sess \<Rightarrow> event \<Rightarrow> sess" where
  "step s (Submit u k uid) = startAnalysis u k uid s"
| "step s (Opened ws) = (if ws < length (sockets s) then onopen ws (sockets s ! ws) s else s)"
| "step s (Message ws fr) = (if ws < length (sockets s) then onmessage ws fr s else s)"
| "step s (Errored ws) = (if ws < length (sockets s) then onerror ws s else s)"
| "step s (Closed ws) = (if ws < length (sockets s) then onclose (sockets s ! ws) s else s)"

definition run :: "event list \<Rightarrow> sess \<Rightarrow> sess" where
  "run es s = foldl step s es"

section \<open>Notions the properties are stated with\<close>

text \<open>
  The channels that exist after a trace of effects: a socket exists from its
  construction until \<open>close()\<close> is called on it.
\<close>

fun track :: "nat list \<Rightarrow> effect \<Rightarrow> nat list" where
  "track L (Create k) = L @ [k]"
| "track L (Close k) = removeAll k L"
| "track L (Send k v) = L"
| "track L (ConsoleError m) = L"

definition open_channels :: "effect list \<Rightarrow> nat list" where
  "open_channels tr = foldl track [] tr"


text \<open>A stored value a consumer can use: neither \<open>undefined\<close> nor \<open>null\<close>.\<close>

definition present :: "jsval \<Rightarrow> bool" where
  "present v = (v \<noteq> None \<and> v \<noteq> Some JNull)"

text \<open>The \<open>type\<close> tag the handler dispatches on, if the frame gets that far.\<close>

definition tag :: "frame \<Rightarrow> jsval" where
  "tag fr = (case fr of Malformed \<Rightarrow> None | Parsed data \<Rightarrow> getprop data ''type'')"

definition recognized :: "frame \<Rightarrow> bool" where
  "recognized fr =
     (tag fr = Some (JStr ''progress'') \<or> tag fr = Some (JStr ''complete'') \<or>
      tag fr = Some (JStr ''error''))"


text \<open>
  A frame that carries the field a consumer will read for its tag: \<open>message\<close> on a
  progress or error frame, \<open>results\<close> on a complete frame.
\<close>

definition carries_payload :: "frame \<Rightarrow> bool" where
  "carries_payload fr =
     (case fr of
        Malformed \<Rightarrow> True
      | Parsed data \<Rightarrow>
          (if tag fr = Some (JStr ''progress'') \<or> tag fr = Some (JStr ''error'')
           then present (getprop data ''message'')
           else if tag fr = Some (JStr ''complete'') then present (getprop data ''results'')
           else True))"

fun carrying :: "event \<Rightarrow> bool" where
  "carrying (Message ws fr) = carries_payload fr"
| "carrying (Submit u k uid) = True"
| "carrying (Opened ws) = True"
| "carrying (Errored ws) = True"
| "carrying (Closed ws) = True"

text \<open>The progress message of the wire protocol.\<close>

definition progress_frame :: "rat \<Rightarrow> string \<Rightarrow> frame" where
  "progress_frame p m =
     Parsed (JObj [(''type'', JStr ''progress''), (''progress'', JNum p),
                   (''message'', JStr m)])"








section \<open>Invariants of the reachable sessions\<close>





text \<open>The status text is always usable, and so is the result of a completed session.\<close>

definition payload_inv :: "sess \<Rightarrow> bool" where
  "payload_inv s = (present (message s) \<and> (status s = Complete \<longrightarrow> present (result s)))"


section \<open>Running events\<close>

lemma run_Nil [simp]: "run [] s = s"
  by (simp add: run_def)

lemma run_Cons [simp]: "run (e # es) s = run es (step s e)"
  by (simp add: run_def)


lemmas handler_defs =
  init_def startAnalysis_def Let_def onopen_def onmessage_def onmessage_try_def
  onerror_def onclose_def or_guest_def progress_frame_def

text \<open>Sockets are only ever added, at the end.\<close>

lemma sockets_step: "\<exists>ext. sockets (step s e) = sockets s @ ext"
  by (cases e) (simp_all add: startAnalysis_def Let_def onopen_def onmessage_def
      onmessage_try_def onerror_def onclose_def split: option.split frame.split)

lemma sockets_run: "\<exists>ext. sockets (run es s) = sockets s @ ext"
proof (induction es arbitrary: s)
  case Nil
  show ?case by simp
next
  case (Cons e es)
  obtain x where x: "sockets (step s e) = sockets s @ x"
    using sockets_step by blast
  obtain y where y: "sockets (run es (step s e)) = sockets (step s e) @ y"
    using Cons.IH by blast
  show ?case using x y by simp
qed

lemma sockets_startAnalysis:
  "sockets (startAnalysis u k uid s) =
     sockets s @ [\<lparr>url = u, keyword = k, userId = uid, seen_status = status s\<rparr>]"
  by (simp add: startAnalysis_def Let_def split: option.split)

section \<open>Submitting\<close>

text \<open>
  C6.  Whatever the session looks like, a submit leaves it connecting, with progress
  0, the connecting text as status message and the result cleared to \<open>null\<close>:
  nothing of the session it replaces stays visible.
\<close>

theorem submit_resets:
  "status (step s (Submit u k uid)) = Connecting \<and>
   progress (step s (Submit u k uid)) = Some (JNum 0) \<and>
   message (step s (Submit u k uid)) = Some (JStr ''Connecting to RankForge AI...'') \<and>
   result (step s (Submit u k uid)) = Some JNull"
  by (simp add: startAnalysis_def Let_def split: option.split)

section \<open>The close event\<close>

text \<open>
  C9.  The close event changes nothing a consumer can see, nor anything else: after
  any number of close events, on whatever sockets, the session is what it was.  The
  hook has no other event (no timer), so a session that is analyzing and gets no
  further message stays analyzing.
\<close>

theorem onclose_no_change: "run (map Closed wss) s = s"
  by (induction wss arbitrary: s) (simp_all add: onclose_def)

section \<open>Inbound messages\<close>

text \<open>
  C10.  A frame tagged \<open>progress\<close> that carries a \<open>progress\<close> member sets the stored
  progress to exactly that member, whatever it is and whatever the session looked
  like: no range check, no clamping, no rounding.
\<close>

theorem progress_stored_as_received:
  assumes "map_of kvs ''type'' = Some (JStr ''progress'')"
      and "map_of kvs ''progress'' = Some v"
  shows "progress (onmessage ws (Parsed (JObj kvs)) s) = Some v"
  using assms by (simp add: onmessage_def onmessage_try_def)

theorem progress_stored_as_received_witness:
  "map_of [(''type'', JStr ''progress''), (''progress'', JNum (- 5 / 2))] ''type'' =
     Some (JStr ''progress'') \<and>
   map_of [(''type'', JStr ''progress''), (''progress'', JNum (- 5 / 2))] ''progress'' =
     Some (JNum (- 5 / 2)) \<and>
   progress (onmessage 0
      (Parsed (JObj [(''type'', JStr ''progress''), (''progress'', JNum (- 5 / 2))])) init) =
     Some (JNum (- 5 / 2))"
proof -
  let ?kvs = "[(''type'', JStr ''progress''), (''progress'', JNum (- 5 / 2))]"
  have a: "map_of ?kvs ''type'' = Some (JStr ''progress'')" by simp
  have b: "map_of ?kvs ''progress'' = Some (JNum (- 5 / 2))" by simp
  show ?thesis
    using a b progress_stored_as_received [OF a b, of 0 init] by blast
qed

text \<open>What one progress message of the wire protocol does, and what a run of them does.\<close>

lemma onmessage_progress_frame:
  "onmessage ws (progress_frame p m) s =
     s\<lparr>progress := Some (JNum p), message := Some (JStr m)\<rparr>"
  by (simp add: onmessage_def onmessage_try_def progress_frame_def)

lemma run_progress_frames:
  "ws < length (sockets s) \<Longrightarrow>
   run (map (\<lambda>(p, m). Message ws (progress_frame p m)) pms) s =
     (if pms = [] then s
      else s\<lparr>progress := Some (JNum (fst (last pms))),
             message := Some (JStr (snd (last pms)))\<rparr>)"
proof (induction pms arbitrary: s)
  case Nil
  show ?case by simp
next
  case (Cons a pms)
  obtain p m where a: "a = (p, m)" by (cases a)
  let ?s1 = "s\<lparr>progress := Some (JNum p), message := Some (JStr m)\<rparr>"
  have len: "ws < length (sockets ?s1)" using Cons.prems by simp
  show ?case using Cons.prems Cons.IH [OF len]
    by (simp add: a onmessage_progress_frame)
qed

text \<open>
  C7.  Progress messages with any values, in any order, delivered to a session that
  is analyzing: the session is still analyzing afterwards, its progress and status
  message are those of the last message, the result is untouched, and nothing was
  thrown or logged on the way.
\<close>

theorem progress_last_wins:
  assumes "status s = Analyzing" and "ws < length (sockets s)" and "pms \<noteq> []"
  shows "status (run (map (\<lambda>(p, m). Message ws (progress_frame p m)) pms) s) = Analyzing \<and>
         progress (run (map (\<lambda>(p, m). Message ws (progress_frame p m)) pms) s) =
           Some (JNum (fst (last pms))) \<and>
         message (run (map (\<lambda>(p, m). Message ws (progress_frame p m)) pms) s) =
           Some (JStr (snd (last pms))) \<and>
         result (run (map (\<lambda>(p, m). Message ws (progress_frame p m)) pms) s) = result s \<and>
         effects (run (map (\<lambda>(p, m). Message ws (progress_frame p m)) pms) s) = effects s"
  using assms by (simp add: run_progress_frames)

theorem progress_last_wins_witness:
  "status (run [Submit ''https://ex.com'' ''shoes'' None, Opened 0] init) = Analyzing \<and>
   0 < length (sockets (run [Submit ''https://ex.com'' ''shoes'' None, Opened 0] init)) \<and>
   [(40 :: rat, ''Crawling''), (25, ''Scoring''), (90, ''Writing'')] \<noteq> [] \<and>
   status (run (map (\<lambda>(p, m). Message 0 (progress_frame p m))
                  [(40, ''Crawling''), (25, ''Scoring''), (90, ''Writing'')])
             (run [Submit ''https://ex.com'' ''shoes'' None, Opened 0] init)) = Analyzing \<and>
   progress (run (map (\<lambda>(p, m). Message 0 (progress_frame p m))
                    [(40, ''Crawling''), (25, ''Scoring''), (90, ''Writing'')])
               (run [Submit ''https://ex.com'' ''shoes'' None, Opened 0] init)) =
     Some (JNum 90)"
proof -
  let ?s = "run [Submit ''https://ex.com'' ''shoes'' None, Opened 0] init"
  have a: "status ?s = Analyzing" by (simp add: handler_defs)
  have b: "0 < length (sockets ?s)" by (simp add: handler_defs)
  have c: "[(40 :: rat, ''Crawling''), (25, ''Scoring''), (90, ''Writing'')] \<noteq> []" by simp
  show ?thesis using a b progress_last_wins [OF a b c] by simp
qed

text \<open>
  C3, as the hook has it.  A frame that is not JSON, or that parses to something
  without one of the three tags (\<open>null\<close>, a number, a string, an array, an object
  with another \<open>type\<close> or none), is handled without a throw leaving the handler and
  changes neither the status, the progress, the status message, the result nor the
  channel; at most one diagnostic is written.
\<close>

theorem unrecognized_frame_ignored:
  assumes "\<not> recognized fr"
  shows "status (step s (Message ws fr)) = status s \<and>
         progress (step s (Message ws fr)) = progress s \<and>
         message (step s (Message ws fr)) = message s \<and>
         result (step s (Message ws fr)) = result s \<and>
         socketRef (step s (Message ws fr)) = socketRef s \<and>
         sockets (step s (Message ws fr)) = sockets s \<and>
         (effects (step s (Message ws fr)) = effects s \<or>
          effects (step s (Message ws fr)) = effects s @ [ConsoleError ''Parse error''])"
  using assms
  by (cases fr) (simp_all add: recognized_def tag_def onmessage_def onmessage_try_def)

theorem unrecognized_frame_ignored_witness:
  "\<not> recognized (Parsed (JObj [(''type'', JStr ''heartbeat'')])) \<and>
   status (step (run [Submit ''https://ex.com'' ''shoes'' None, Opened 0] init)
             (Message 0 (Parsed (JObj [(''type'', JStr ''heartbeat'')])))) = Analyzing \<and>
   progress (step (run [Submit ''https://ex.com'' ''shoes'' None, Opened 0] init)
               (Message 0 (Parsed (JObj [(''type'', JStr ''heartbeat'')])))) = Some (JNum 0)"
proof -
  let ?s = "run [Submit ''https://ex.com'' ''shoes'' None, Opened 0] init"
  let ?fr = "Parsed (JObj [(''type'', JStr ''heartbeat'')])"
  have a: "\<not> recognized ?fr" by (simp add: recognized_def tag_def)
  have b: "status ?s = Analyzing" "progress ?s = Some (JNum 0)"
    by (simp_all add: handler_defs)
  show ?thesis using a b unrecognized_frame_ignored [OF a, of ?s 0] by simp
qed

text \<open>
  C3 as stated fails for a frame with a known tag and a missing field: a progress
  frame without \<open>progress\<close> and \<open>message\<close> overwrites both with \<open>undefined\<close>.
\<close>

theorem missing_fields_counterexample:
  "progress (run [Submit ''https://ex.com'' ''shoes'' None, Opened 0] init) = Some (JNum 0) \<and>
   progress (step (run [Submit ''https://ex.com'' ''shoes'' None, Opened 0] init)
               (Message 0 (Parsed (JObj [(''type'', JStr ''progress'')])))) = None \<and>
   message (run [Submit ''https://ex.com'' ''shoes'' None, Opened 0] init) =
     Some (JStr ''Connecting to RankForge AI...'') \<and>
   message (step (run [Submit ''https://ex.com'' ''shoes'' None, Opened 0] init)
              (Message 0 (Parsed (JObj [(''type'', JStr ''progress'')])))) = None"
  by (simp add: handler_defs)

section \<open>The request\<close>

text \<open>
  C8, as the hook has it.  When the socket built by a submit opens, however many
  other events came in between, the hook sends on that socket exactly one message:
  the object with the submit's \<open>url\<close>, its keyword as \<open>target_keyword\<close>, and as
  \<open>user_id\<close> the supplied identity if there is one and it is not the empty string,
  \<open>guest\<close> otherwise.
\<close>

theorem request_sent_on_open:
  "effects (step (run es (startAnalysis u k uid s)) (Opened (length (sockets s)))) =
     effects (run es (startAnalysis u k uid s)) @
       [Send (length (sockets s))
          (JObj [(''url'', JStr u), (''target_keyword'', JStr k),
                 (''user_id'', JStr (case uid of
                                      None \<Rightarrow> ''guest''
                                    | Some x \<Rightarrow> if x = [] then ''guest'' else x))])]"
proof -
  let ?s1 = "startAnalysis u k uid s"
  obtain ext where ext: "sockets (run es ?s1) = sockets ?s1 @ ext"
    using sockets_run by blast
  have nth: "sockets (run es ?s1) ! length (sockets s) =
      \<lparr>url = u, keyword = k, userId = uid, seen_status = status s\<rparr>"
    by (simp add: ext sockets_startAnalysis nth_append)
  have len: "length (sockets s) < length (sockets (run es ?s1))"
    by (simp add: ext sockets_startAnalysis)
  show ?thesis using len nth by (simp add: onopen_def or_guest_def)
qed

theorem request_sent_on_open_witness:
  "effects (step (run [] (startAnalysis ''https://ex.com'' ''shoes'' (Some ''u-17'') init))
              (Opened 0)) =
     [Create 0,
      Send 0 (JObj [(''url'', JStr ''https://ex.com''), (''target_keyword'', JStr ''shoes''),
                    (''user_id'', JStr ''u-17'')])]"
  using request_sent_on_open [of "[]" "''https://ex.com''" "''shoes''" "Some ''u-17''" init]
  by (simp add: init_def startAnalysis_def)

text \<open>
  C8 as stated fails when the identity supplied is the empty string: it is present,
  and the request carries \<open>guest\<close>.
\<close>

theorem empty_identity_counterexample:
  "effects (run [Submit ''https://ex.com'' ''shoes'' (Some []), Opened 0] init) =
     [Create 0,
      Send 0 (JObj [(''url'', JStr ''https://ex.com''), (''target_keyword'', JStr ''shoes''),
                    (''user_id'', JStr ''guest'')])] \<and>
   JStr ''guest'' \<noteq> JStr []"
  by (simp add: handler_defs)

section \<open>Terminal transitions\<close>

text \<open>
  C2 at a transport error.  The connection fails, the session goes to \<open>error\<close>, and
  the hook has not called \<open>close()\<close>: by its own trace the channel it built still
  exists.  The two message paths that end a session do call \<open>close()\<close>.
\<close>

theorem onerror_leaves_channel_open:
  "status (run [Submit ''https://ex.com'' ''shoes'' None, Errored 0] init) = Error \<and>
   effects (run [Submit ''https://ex.com'' ''shoes'' None, Errored 0] init) =
     [Create 0, ConsoleError ''WebSocket error''] \<and>
   open_channels (effects (run [Submit ''https://ex.com'' ''shoes'' None, Errored 0] init)) = [0]"
  by (simp add: handler_defs open_channels_def)

text \<open>The status text and the result of a completed session stay usable.\<close>

lemma payload_inv_init: "payload_inv init"
  by (simp add: payload_inv_def init_def present_def)

lemma payload_inv_onmessage:
  assumes "payload_inv s" and "carries_payload fr"
  shows "payload_inv (onmessage ws fr s)"
proof (cases fr)
  case Malformed
  then show ?thesis
    using assms(1) by (simp add: onmessage_def onmessage_try_def payload_inv_def)
next
  case (Parsed data)
  then show ?thesis
    using assms
    by (auto simp: onmessage_def onmessage_try_def payload_inv_def carries_payload_def tag_def)
qed

lemma payload_inv_step:
  assumes "payload_inv s" and "carrying e"
  shows "payload_inv (step s e)"
proof (cases e)
  case (Submit u k uid)
  then show ?thesis
    by (simp add: payload_inv_def present_def startAnalysis_def Let_def split: option.split)
next
  case (Opened ws)
  then show ?thesis using assms(1) by (simp add: payload_inv_def onopen_def)
next
  case (Message ws fr)
  then show ?thesis using assms by (simp add: payload_inv_onmessage)
next
  case (Errored ws)
  then show ?thesis using assms(1) by (simp add: payload_inv_def onerror_def present_def)
next
  case (Closed ws)
  then show ?thesis using assms(1) by (simp add: onclose_def)
qed

lemma payload_inv_run:
  "payload_inv s \<Longrightarrow> list_all carrying es \<Longrightarrow> payload_inv (run es s)"
  by (induction es arbitrary: s) (simp_all add: payload_inv_step)

text \<open>
  C4, as the hook has it.  Let every frame that arrives with a known tag carry the
  field read for it, not \<open>null\<close>: \<open>message\<close> on a progress or an error frame,
  \<open>results\<close> on a complete frame.  Then, after any sequence of events, a session
  that is complete has a result that is neither \<open>undefined\<close> nor \<open>null\<close>, and a
  session in error has such a status message.
\<close>

theorem terminal_payload_present:
  assumes "list_all carrying es"
  shows "(status (run es init) = Complete \<longrightarrow> present (result (run es init))) \<and>
         (status (run es init) = Error \<longrightarrow> present (message (run es init)))"
  using payload_inv_run [OF payload_inv_init assms] by (simp add: payload_inv_def)

theorem terminal_payload_present_witness:
  "list_all carrying
     [Submit ''https://ex.com'' ''shoes'' None, Opened 0,
      Message 0 (Parsed (JObj [(''type'', JStr ''complete''),
                               (''results'', JObj [(''overall_score'', JNum 81)])]))] \<and>
   status (run [Submit ''https://ex.com'' ''shoes'' None, Opened 0,
                Message 0 (Parsed (JObj [(''type'', JStr ''complete''),
                                         (''results'', JObj [(''overall_score'', JNum 81)])]))]
             init) = Complete \<and>
   present (result (run [Submit ''https://ex.com'' ''shoes'' None, Opened 0,
                Message 0 (Parsed (JObj [(''type'', JStr ''complete''),
                                         (''results'', JObj [(''overall_score'', JNum 81)])]))]
             init))"
proof -
  let ?es = "[Submit ''https://ex.com'' ''shoes'' None, Opened 0,
      Message 0 (Parsed (JObj [(''type'', JStr ''complete''),
                               (''results'', JObj [(''overall_score'', JNum 81)])]))]"
  have a: "list_all carrying ?es"
    by (simp add: carries_payload_def tag_def present_def)
  have b: "status (run ?es init) = Complete" by (simp add: handler_defs)
  show ?thesis using a b terminal_payload_present [OF a] by blast
qed

text \<open>
  C4 as stated fails for a complete frame without \<open>results\<close>: the session is
  complete and the stored result is \<open>undefined\<close>.
\<close>

theorem complete_without_results_counterexample:
  "status (run [Submit ''https://ex.com'' ''shoes'' None, Opened 0,
                Message 0 (Parsed (JObj [(''type'', JStr ''complete'')]))] init) = Complete \<and>
   result (run [Submit ''https://ex.com'' ''shoes'' None, Opened 0,
                Message 0 (Parsed (JObj [(''type'', JStr ''complete'')]))] init) = None"
  by (simp add: handler_defs)

section \<open>After a terminal transition\<close>
















section \<open>One channel at a time\<close>















end
